theory Spec2Isabelle
  imports Main
begin

section \<open>Python values and the operations the formatters use\<close>

text \<open>
  Both formatters read one JSON document and look fields up in it. \<open>json.load\<close> and
  \<open>json.loads\<close> belong to the standard library; the model starts from the value they
  return. A JSON object is a dict, held as the list of its items in insertion order
  (the keys of a parsed object are distinct); a JSON number without fraction or exponent
  is an int, any other number is a float. Of a float the formatters only observe its
  truth value and its text, so a float is held as the text \<open>repr\<close> gives for it
  (\<open>0.0\<close> and \<open>-0.0\<close> are the two zeros). A str is held as the bytes of its UTF-8
  encoding.
\<close>

datatype pyval =
    PyNone
  | PyBool bool
  | PyInt int
  | PyFloat string
  | PyStr string
  | PyList "pyval list"
  | PyDict "(string \<times> pyval) list"

text \<open>Whether a value is a JSON object.\<close>

fun is_dict :: "pyval \<Rightarrow> bool" where
  "is_dict (PyDict kvs) = True"
| "is_dict _ = False"

text \<open>The exceptions the two scripts can raise once the input is parsed.\<close>

datatype error = AttributeError | KeyError | TypeError

text \<open>Sequencing: the first exception raised ends the evaluation.\<close>

definition bindE :: "error + 'a \<Rightarrow> ('a \<Rightarrow> error + 'b) \<Rightarrow> error + 'b" where
  "bindE m f = (case m of Inl e \<Rightarrow> Inl e | Inr x \<Rightarrow> f x)"

text \<open>
  \<open>d.get(k, dflt)\<close>: only a dict has the method; on any other value the attribute
  lookup raises AttributeError.
\<close>

definition dict_get :: "(string \<times> pyval) list \<Rightarrow> string \<Rightarrow> pyval \<Rightarrow> pyval" where
  "dict_get kvs k dflt = (case map_of kvs k of None \<Rightarrow> dflt | Some v \<Rightarrow> v)"

fun py_get :: "pyval \<Rightarrow> string \<Rightarrow> pyval \<Rightarrow> error + pyval" where
  "py_get (PyDict kvs) k dflt = Inr (dict_get kvs k dflt)"
| "py_get _ k dflt = Inl AttributeError"

text \<open>
  \<open>d.get(k1, {}).get(k2, {}) ... .get(k, dflt)\<close>, the chain both scripts use to reach a
  nested field.
\<close>

fun get_path :: "pyval \<Rightarrow> string list \<Rightarrow> string \<Rightarrow> pyval \<Rightarrow> error + pyval" where
  "get_path d [] k dflt = py_get d k dflt"
| "get_path d (p # ps) k dflt = bindE (py_get d p (PyDict [])) (\<lambda>d'. get_path d' ps k dflt)"

text \<open>
  \<open>d[k]\<close> with a str key: KeyError on a dict without the key, TypeError on a value that
  cannot be indexed by a str.
\<close>

fun py_getitem :: "pyval \<Rightarrow> string \<Rightarrow> error + pyval" where
  "py_getitem (PyDict kvs) k = (case map_of kvs k of None \<Rightarrow> Inl KeyError | Some v \<Rightarrow> Inr v)"
| "py_getitem _ k = Inl TypeError"

text \<open>The truth value of a value, as \<open>if x\<close>, \<open>x or y\<close> and \<open>x and y\<close> take it.\<close>

fun truthy :: "pyval \<Rightarrow> bool" where
  "truthy PyNone = False"
| "truthy (PyBool b) = b"
| "truthy (PyInt i) = (i \<noteq> 0)"
| "truthy (PyFloat r) = (r \<noteq> ''0.0'' \<and> r \<noteq> ''-0.0'')"
| "truthy (PyStr s) = (s \<noteq> [])"
| "truthy (PyList xs) = (xs \<noteq> [])"
| "truthy (PyDict kvs) = (kvs \<noteq> [])"

text \<open>\<open>x or y\<close> on values already computed.\<close>

definition py_or :: "pyval \<Rightarrow> pyval \<Rightarrow> pyval" where
  "py_or x y = (if truthy x then x else y)"

text \<open>\<open>"literal" + x\<close>: str concatenation; any other right operand raises TypeError.\<close>

fun str_add :: "string \<Rightarrow> pyval \<Rightarrow> error + pyval" where
  "str_add s (PyStr t) = Inr (PyStr (s @ t))"
| "str_add s _ = Inl TypeError"

text \<open>
  Iteration, as a comprehension or a \<open>for\<close> loop does it: a list yields its elements, a
  dict its keys, a str its characters (one str per code point); no other JSON value is
  iterable.
\<close>

definition is_continuation :: "char \<Rightarrow> bool" where
  "is_continuation c = (128 \<le> (of_char c :: nat) \<and> (of_char c :: nat) < 192)"

function code_points :: "string \<Rightarrow> string list" where
  "code_points [] = []"
| "code_points (c # cs) =
     (c # takeWhile is_continuation cs) # code_points (dropWhile is_continuation cs)"
  by pat_completeness auto
termination
  by (relation "measure length") (auto simp: length_dropWhile_le less_Suc_eq_le)

fun py_iter :: "pyval \<Rightarrow> error + pyval list" where
  "py_iter (PyList xs) = Inr xs"
| "py_iter (PyDict kvs) = Inr (map (\<lambda>kv. PyStr (fst kv)) kvs)"
| "py_iter (PyStr s) = Inr (map PyStr (code_points s))"
| "py_iter _ = Inl TypeError"

text \<open>\<open>[x for x in xs if p(x)]\<close> where evaluating the condition may raise.\<close>

fun filterE :: "('a \<Rightarrow> error + bool) \<Rightarrow> 'a list \<Rightarrow> error + 'a list" where
  "filterE p [] = Inr []"
| "filterE p (x # xs) =
     bindE (p x) (\<lambda>keep. bindE (filterE p xs) (\<lambda>rest. Inr (if keep then x # rest else rest)))"

text \<open>A loop that computes one result per element, in order, and may raise.\<close>

fun mapE :: "('a \<Rightarrow> error + 'b) \<Rightarrow> 'a list \<Rightarrow> error + 'b list" where
  "mapE f [] = Inr []"
| "mapE f (x # xs) = bindE (f x) (\<lambda>y. bindE (mapE f xs) (\<lambda>ys. Inr (y # ys)))"

subsection \<open>Text: \<open>str\<close>, \<open>repr\<close>, \<open>join\<close>, \<open>replace\<close>, \<open>split\<close>\<close>

definition digit_char :: "nat \<Rightarrow> char" where
  "digit_char n = ''0123456789abcdef'' ! (n mod 16)"

function digits :: "nat \<Rightarrow> string" where
  "digits n = (if n < 10 then [digit_char n] else digits (n div 10) @ [digit_char (n mod 10)])"
  by pat_completeness auto
termination
  by (relation "measure id") auto

definition str_int :: "int \<Rightarrow> string" where
  "str_int i = (if i < 0 then CHR ''-'' # digits (nat (- i)) else digits (nat i))"

text \<open>
  \<open>repr\<close> of a str: single quotes unless the text has a single quote and no double
  quote; the quote character and the backslash are escaped, tab, newline and carriage
  return are written \<open>\t\<close>, \<open>\n\<close>, \<open>\r\<close>, every other control character of ASCII as
  \<open>\xhh\<close>. Bytes beyond ASCII are copied: Python escapes a code point beyond ASCII only
  when it is not printable.
\<close>

definition repr_char :: "char \<Rightarrow> char \<Rightarrow> string" where
  "repr_char q c =
     (if c = q \<or> c = CHR 0x5C then [CHR 0x5C, c]
      else if c = CHR 0x09 then [CHR 0x5C, CHR ''t'']
      else if c = CHR 0x0A then [CHR 0x5C, CHR ''n'']
      else if c = CHR 0x0D then [CHR 0x5C, CHR ''r'']
      else if (of_char c :: nat) < 32 \<or> (of_char c :: nat) = 127
        then [CHR 0x5C, CHR ''x'', digit_char (of_char c div 16), digit_char (of_char c mod 16)]
      else [c])"

definition repr_str :: "string \<Rightarrow> string" where
  "repr_str s =
     (let q = (if CHR 0x27 \<in> set s \<and> CHR 0x22 \<notin> set s then CHR 0x22 else CHR 0x27)
      in [q] @ concat (map (repr_char q) s) @ [q])"

text \<open>\<open>sep.join(xs)\<close>.\<close>

fun join :: "string \<Rightarrow> string list \<Rightarrow> string" where
  "join sep [] = []"
| "join sep [x] = x"
| "join sep (x # y # ys) = x @ sep @ join sep (y # ys)"

primrec py_repr :: "pyval \<Rightarrow> string" where
  "py_repr PyNone = ''None''"
| "py_repr (PyBool b) = (if b then ''True'' else ''False'')"
| "py_repr (PyInt i) = str_int i"
| "py_repr (PyFloat r) = r"
| "py_repr (PyStr s) = repr_str s"
| "py_repr (PyList xs) = ''['' @ join '', '' (map py_repr xs) @ '']''"
| "py_repr (PyDict kvs) =
     ''{'' @ join '', '' (map (\<lambda>kr. repr_str (fst kr) @ '': '' @ snd kr)
                              (map (map_prod id py_repr) kvs)) @ ''}''"

text \<open>\<open>str(x)\<close>, which is also what an f-string field without a format gives.\<close>

definition py_str :: "pyval \<Rightarrow> string" where
  "py_str v = (case v of PyStr s \<Rightarrow> s | _ \<Rightarrow> py_repr v)"

text \<open>
  \<open>s.replace(old, new)\<close>: every occurrence of \<open>old\<close>, found from the left and without
  overlap, becomes \<open>new\<close>. With an empty \<open>old\<close>, \<open>new\<close> is put before every character and
  at the end.
\<close>

fun replace_from :: "string \<Rightarrow> string \<Rightarrow> string \<Rightarrow> string" where
  "replace_from old new [] = []"
| "replace_from old new (c # cs) =
     (if take (length old) (c # cs) = old
      then new @ replace_from old new (drop (length old - 1) cs)
      else c # replace_from old new cs)"

definition py_replace :: "string \<Rightarrow> string \<Rightarrow> string \<Rightarrow> string" where
  "py_replace s old new =
     (if old = [] then new @ concat (map (\<lambda>c. c # new) s) else replace_from old new s)"

text \<open>\<open>s.split(sep)\<close> with a separator of one character.\<close>

fun split_on :: "char \<Rightarrow> string \<Rightarrow> string list" where
  "split_on sep [] = [[]]"
| "split_on sep (c # cs) =
     (if c = sep then [] # split_on sep cs
      else (case split_on sep cs of l # ls \<Rightarrow> (c # l) # ls | [] \<Rightarrow> [[c]]))"

section \<open>The table object of the prettytable library\<close>

text \<open>
  Both scripts build their tables with the third-party library prettytable, which is not
  part of the repository. A table is the state the scripts set on it: the field names,
  the \<open>border\<close> and \<open>header\<close> switches, the alignment of each field (a dict from field
  name to \<open>l\<close>, \<open>c\<close> or \<open>r\<close>, every field starting centred) and the rows added so far.
  A cell is whatever value the script passed; the library turns it into text when the
  table is laid out.
\<close>

record PrettyTable =
  field_names :: "string list"
  border :: bool
  header :: bool
  align :: "string \<Rightarrow> char option"
  rows :: "pyval list list"

text \<open>\<open>PrettyTable(names)\<close>; \<open>PrettyTable()\<close> is \<open>PrettyTable_new []\<close>.\<close>

definition PrettyTable_new :: "string list \<Rightarrow> PrettyTable" where
  "PrettyTable_new names =
     \<lparr>field_names = names, border = True, header = True,
      align = (\<lambda>f. if f \<in> set names then Some CHR ''c'' else None), rows = []\<rparr>"

text \<open>\<open>t.field_names = names\<close> on a table that has no fields yet.\<close>

definition set_field_names :: "string list \<Rightarrow> PrettyTable \<Rightarrow> PrettyTable" where
  "set_field_names names t =
     t\<lparr>field_names := names,
       align := (\<lambda>f. if f \<in> set names then Some CHR ''c'' else align t f)\<rparr>"

text \<open>\<open>t.align = a\<close> sets the alignment of every field; \<open>t.align[f] = a\<close> sets one key.\<close>

definition align_all :: "char \<Rightarrow> PrettyTable \<Rightarrow> PrettyTable" where
  "align_all a t = t\<lparr>align := (\<lambda>f. if f \<in> set (field_names t) then Some a else align t f)\<rparr>"

definition align_field :: "string \<Rightarrow> char \<Rightarrow> PrettyTable \<Rightarrow> PrettyTable" where
  "align_field f a t = t\<lparr>align := (align t)(f \<mapsto> a)\<rparr>"

text \<open>
  \<open>t.add_row(row)\<close>. The library raises when the row's length differs from the number
  of fields; every row of the two scripts is a literal list of the right length.
\<close>

definition add_row :: "pyval list \<Rightarrow> PrettyTable \<Rightarrow> PrettyTable" where
  "add_row r t = t\<lparr>rows := rows t @ [r]\<rparr>"

subsection \<open>The layout of a table without border\<close>

text \<open>
  \<open>t.get_string()\<close>, which is also \<open>str(t)\<close> and so what \<open>print(t)\<close> writes. Every table
  of the two scripts has \<open>border = False\<close>, and this is the layout the library gives
  then: each cell becomes \<open>str(cell)\<close>; a column is as wide as its widest cell line, and
  as its field name when the header is shown; each cell is justified in that width by
  the field's alignment with one space of padding on either side; a cell of several
  lines makes a row of several lines, shorter cells filled with empty lines below; a
  table with no row is the empty text. Width is counted in code points, which is the
  display width of text without wide or zero-width characters.

  The formatters below take the layout function as an argument (\<open>render\<close>), so what is
  proved of them for every \<open>render\<close> does not rest on this description of the library.
\<close>

definition newline :: char where
  "newline = CHR 0x0A"

definition str_block_width :: "string \<Rightarrow> nat" where
  "str_block_width s = length (filter (\<lambda>c. \<not> is_continuation c) s)"

definition text_width :: "string \<Rightarrow> nat" where
  "text_width s = foldr max (map str_block_width (split_on newline s)) 0"

definition justify :: "string \<Rightarrow> nat \<Rightarrow> char \<Rightarrow> string" where
  "justify s width a =
     (let excess = width - str_block_width s in
      if a = CHR ''l'' then s @ replicate excess CHR '' ''
      else if a = CHR ''r'' then replicate excess CHR '' '' @ s
      else if odd excess then
        (if odd (str_block_width s)
         then replicate (excess div 2) CHR '' '' @ s @ replicate (excess div 2 + 1) CHR '' ''
         else replicate (excess div 2 + 1) CHR '' '' @ s @ replicate (excess div 2) CHR '' '')
      else replicate (excess div 2) CHR '' '' @ s @ replicate (excess div 2) CHR '' '')"

definition compute_widths :: "PrettyTable \<Rightarrow> string list list \<Rightarrow> nat list" where
  "compute_widths t frows =
     foldl (\<lambda>ws row. map (\<lambda>wv. max (fst wv) (text_width (snd wv))) (zip ws row))
       (if header t then map text_width (field_names t)
        else replicate (length (field_names t)) 0)
       frows"

definition field_align :: "PrettyTable \<Rightarrow> string \<Rightarrow> char" where
  "field_align t f = (case align t f of None \<Rightarrow> CHR ''c'' | Some a \<Rightarrow> a)"

definition stringify_header :: "PrettyTable \<Rightarrow> nat list \<Rightarrow> string" where
  "stringify_header t widths =
     concat (map (\<lambda>fw. '' '' @ justify (fst fw) (snd fw) (field_align t (fst fw)) @ '' '')
                 (zip (field_names t) widths))"

definition stringify_row :: "PrettyTable \<Rightarrow> nat list \<Rightarrow> string list \<Rightarrow> string" where
  "stringify_row t widths row =
     (let cells = map (split_on newline) row;
          row_height = foldr max (map length cells) 0;
          bits = (\<lambda>y. concat (map
                   (\<lambda>fcw. case fcw of (f, ls, w) \<Rightarrow>
                      '' '' @ justify (if y < length ls then ls ! y else []) w (field_align t f) @ '' '')
                   (zip (field_names t) (zip cells widths))))
      in join [newline] (map bits [0..<row_height]))"

definition get_string :: "PrettyTable \<Rightarrow> string" where
  "get_string t =
     (if rows t = [] then []
      else
        (let formatted_rows = map (map py_str) (rows t);
             widths = compute_widths t formatted_rows
         in join [newline]
              ((if header t then [stringify_header t widths] else [])
               @ map (stringify_row t widths) formatted_rows)))"

section \<open>format-doctor-tables.py\<close>

text \<open>The glyphs U+2713 and U+2717, in UTF-8.\<close>

definition check_mark :: string where
  "check_mark = [CHR 0xE2, CHR 0x9C, CHR 0x93]"

definition cross_mark :: string where
  "cross_mark = [CHR 0xE2, CHR 0x9C, CHR 0x97]"

text \<open>\<open>"[check]" if x else "[cross]"\<close>.\<close>

definition mark :: "pyval \<Rightarrow> string" where
  "mark x = (if truthy x then check_mark else cross_mark)"

text \<open>
  Lines 12 to 16: the lookup of the runtime type in the dict of three labels, with the
  type itself as the default, then \<open>or runtime_type\<close>. A list or a dict cannot be a key:
  the lookup raises TypeError (unhashable).
\<close>

definition runtime_type_display :: "pyval \<Rightarrow> error + pyval" where
  "runtime_type_display runtime_type =
     (case runtime_type of
        PyList _ \<Rightarrow> Inl TypeError
      | PyDict _ \<Rightarrow> Inl TypeError
      | _ \<Rightarrow>
          Inr (py_or
            (case map_of
                [(PyStr ''bundled'', PyStr ''Bundled (self-contained)''),
                 (PyStr ''system'', PyStr ''System''),
                 (PyStr ''custom'', PyStr ''Custom (env override)'')] runtime_type of
               None \<Rightarrow> runtime_type
             | Some label \<Rightarrow> label)
            runtime_type))"

text \<open>Line 18: the check mark and a space before the label, unless the type is \<open>system\<close>.\<close>

definition runtime_type_value :: "pyval \<Rightarrow> pyval \<Rightarrow> error + pyval" where
  "runtime_type_value runtime_type display =
     (if runtime_type \<noteq> PyStr ''system'' then str_add (check_mark @ '' '') display
      else Inr display)"

text \<open>Lines 20 to 28.\<close>

definition make_runtime_table :: "pyval \<Rightarrow> error + PrettyTable" where
  "make_runtime_table runtime =
     (let t = PrettyTable_new [];
          t = t\<lparr>border := False\<rparr>;
          t = t\<lparr>header := False\<rparr>;
          t = set_field_names [''Runtime'', ''Value''] t;
          t = align_field ''Runtime'' CHR ''l'' t;
          t = align_field ''Value'' CHR ''l'' t
      in bindE (py_get runtime ''python'' (PyStr [])) (\<lambda>python.
         bindE (py_get runtime ''sox'' (PyStr [])) (\<lambda>sox.
         bindE (py_get runtime ''data_dir'' (PyStr [])) (\<lambda>data_dir.
         Inr (add_row [PyStr ''Data'', data_dir]
               (add_row [PyStr ''Sox'', sox]
                 (add_row [PyStr ''Python'', python] t)))))))"

text \<open>Lines 35 to 43.\<close>

definition make_deps_table :: "pyval \<Rightarrow> error + PrettyTable" where
  "make_deps_table system =
     (let t = PrettyTable_new [];
          t = t\<lparr>border := False\<rparr>;
          t = t\<lparr>header := False\<rparr>;
          t = set_field_names [''Dependencies'', ''Installed''] t;
          t = align_field ''Dependencies'' CHR ''l'' t;
          t = align_field ''Installed'' CHR ''c'' t
      in bindE (py_get system ''sox'' PyNone) (\<lambda>sox.
         bindE (py_get system ''afplay'' PyNone) (\<lambda>afplay.
         bindE (py_get system ''say'' PyNone) (\<lambda>say.
         Inr (add_row [PyStr ''say'', PyStr (mark say)]
               (add_row [PyStr ''afplay'', PyStr (mark afplay)]
                 (add_row [PyStr ''Sox'', PyStr (mark sox)] t)))))))"

text \<open>Lines 46 to 56. \<open>Status\<close> is no field of the table: the assignment adds a key.\<close>

definition make_stt_table :: "pyval \<Rightarrow> pyval \<Rightarrow> error + PrettyTable" where
  "make_stt_table data engines =
     (let t = PrettyTable_new [];
          t = t\<lparr>border := False\<rparr>;
          t = t\<lparr>header := True\<rparr>;
          t = set_field_names [''Engine'', ''installed'', ''Models''] t;
          t = align_field ''Engine'' CHR ''l'' t;
          t = align_field ''Status'' CHR ''c'' t;
          t = align_field ''Models'' CHR ''c'' t
      in bindE (py_get engines ''whisper'' PyNone) (\<lambda>stt_engines.
         bindE (py_get engines ''parakeet'' PyNone) (\<lambda>parakeet_engines.
         bindE (get_path data [''models''] ''whisper'' (PyInt 0)) (\<lambda>whisper_models.
         bindE (get_path data [''models''] ''parakeet'' (PyInt 0)) (\<lambda>parakeet_models.
         Inr (add_row [PyStr ''Parakeet'', PyStr (mark parakeet_engines), parakeet_models]
               (add_row [PyStr ''Whisper'', PyStr (mark stt_engines), whisper_models] t)))))))"

text \<open>Lines 61 to 64: the two status texts of the Text-to-Speech table.\<close>

definition kokoro_status :: "pyval \<Rightarrow> pyval \<Rightarrow> string" where
  "kokoro_status available server_running =
     (let status = mark available
      in if truthy server_running then status @ '' (server)'' else status)"

text \<open>Lines 59 to 74.\<close>

definition make_tts_table :: "pyval \<Rightarrow> pyval \<Rightarrow> error + PrettyTable" where
  "make_tts_table piper kokoro =
     bindE (py_get piper ''available'' PyNone) (\<lambda>piper_available.
     bindE (py_get kokoro ''available'' PyNone) (\<lambda>kokoro_available.
     bindE (py_get kokoro ''server_running'' PyNone) (\<lambda>server_running.
     (let t = PrettyTable_new [];
          t = t\<lparr>border := False\<rparr>;
          t = t\<lparr>header := True\<rparr>;
          t = set_field_names [''Engine'', ''installed'', ''Voices''] t;
          t = align_field ''Engine'' CHR ''l'' t;
          t = align_field ''Status'' CHR ''c'' t;
          t = align_field ''Voices'' CHR ''c'' t
      in bindE (py_get piper ''voices'' (PyInt 0)) (\<lambda>piper_voices.
         bindE (py_get kokoro ''voices'' (PyInt 0)) (\<lambda>kokoro_voices.
         Inr (add_row [PyStr ''Kokoro'',
                       PyStr (kokoro_status kokoro_available server_running), kokoro_voices]
               (add_row [PyStr ''Piper'', PyStr (mark piper_available), piper_voices] t))))))))"

text \<open>
  Line 78: the status of the Playback row. The pid is read with a subscript, inside the
  f-string, only when \<open>active\<close> is true.
\<close>

definition playback_status :: "pyval \<Rightarrow> error + string" where
  "playback_status playback =
     bindE (py_get playback ''active'' PyNone) (\<lambda>active.
       if truthy active
       then bindE (py_getitem playback ''pid'') (\<lambda>pid.
              Inr (''Active (PID: '' @ py_str pid @ '')''))
       else Inr ''Stopped'')"

text \<open>Lines 77 to 87.\<close>

definition make_services_table :: "pyval \<Rightarrow> pyval \<Rightarrow> error + PrettyTable" where
  "make_services_table playback kokoro =
     bindE (playback_status playback) (\<lambda>status.
     (let t = PrettyTable_new [];
          t = t\<lparr>border := False\<rparr>;
          t = t\<lparr>header := False\<rparr>;
          t = set_field_names [''Service'', ''Status''] t;
          t = align_field ''Service'' CHR ''l'' t;
          t = align_field ''Status'' CHR ''l'' t;
          t = add_row [PyStr ''Playback'', PyStr status] t
      in bindE (py_get kokoro ''server_running'' PyNone) (\<lambda>server_running.
         Inr (add_row [PyStr ''Kokoro Server'',
                       PyStr (if truthy server_running then ''Running'' else ''Not running'')] t))))"

text \<open>
  Lines 90 to 100: the table of environment variables exists only when \<open>environment\<close> is
  true as a condition; \<open>items()\<close> is a method of dicts only.
\<close>

definition make_env_table :: "pyval \<Rightarrow> error + PrettyTable option" where
  "make_env_table env_vars =
     (if truthy env_vars then
        (case env_vars of
           PyDict kvs \<Rightarrow>
             (let t = PrettyTable_new [];
                  t = t\<lparr>border := False\<rparr>;
                  t = t\<lparr>header := False\<rparr>;
                  t = set_field_names [''VTT_'', ''Value''] t;
                  t = align_field ''VTT_'' CHR ''l'' t;
                  t = align_field ''Value'' CHR ''l'' t
              in Inr (Some (foldl (\<lambda>t kv. add_row [PyStr (fst kv), snd kv] t) t kvs)))
         | _ \<Rightarrow> Inl AttributeError)
      else Inr None)"

text \<open>The six tables \<open>main\<close> holds when it starts to print.\<close>

record doctor_tables =
  runtime_table :: PrettyTable
  env_table :: "PrettyTable option"
  deps_table :: PrettyTable
  stt_table :: PrettyTable
  tts_table :: PrettyTable
  services_table :: PrettyTable

text \<open>
  Lines 10 to 100 of \<open>main\<close>, in the order the script evaluates them. The value of line 18
  is computed and bound, as in the script, and no later line reads it.
\<close>

definition build_tables :: "pyval \<Rightarrow> error + doctor_tables" where
  "build_tables data =
     bindE (py_get data ''runtime'' (PyDict [])) (\<lambda>runtime.
     bindE (py_get runtime ''type'' (PyStr ''unknown'')) (\<lambda>runtime_type.
     bindE (runtime_type_display runtime_type) (\<lambda>display.
     bindE (runtime_type_value runtime_type display) (\<lambda>type_value.
     bindE (make_runtime_table runtime) (\<lambda>runtime_t.
     bindE (py_get data ''dependencies'' (PyDict [])) (\<lambda>deps.
     bindE (py_get deps ''system'' (PyDict [])) (\<lambda>system.
     bindE (py_get deps ''engines'' (PyDict [])) (\<lambda>engines.
     bindE (make_deps_table system) (\<lambda>deps_t.
     bindE (make_stt_table data engines) (\<lambda>stt_t.
     bindE (py_get engines ''piper'' (PyDict [])) (\<lambda>piper.
     bindE (py_get engines ''kokoro'' (PyDict [])) (\<lambda>kokoro.
     bindE (make_tts_table piper kokoro) (\<lambda>tts_t.
     bindE (py_get data ''playback'' (PyDict [])) (\<lambda>playback.
     bindE (make_services_table playback kokoro) (\<lambda>services_t.
     bindE (py_get data ''environment'' PyNone) (\<lambda>env_vars.
     bindE (make_env_table env_vars) (\<lambda>env_t.
     Inr \<lparr>runtime_table = runtime_t, env_table = env_t, deps_table = deps_t,
          stt_table = stt_t, tts_table = tts_t, services_table = services_t\<rparr>
     )))))))))))))))))"

text \<open>\<open>print(x)\<close> writes the text and a newline to the standard output.\<close>

definition print_line :: "string \<Rightarrow> string \<Rightarrow> string" where
  "print_line x out = out @ x @ [newline]"

text \<open>Lines 102 to 121: \<open>out\<close> is what the standard output holds.\<close>

definition print_tables :: "(PrettyTable \<Rightarrow> string) \<Rightarrow> doctor_tables \<Rightarrow> string \<Rightarrow> string" where
  "print_tables render ts out =
     (let out = print_line ''Runtime:'' out;
          out = print_line (render (runtime_table ts)) out;
          out = (case env_table ts of
                   None \<Rightarrow> out
                 | Some env_t \<Rightarrow>
                     (let out = print_line [] out;
                          out = print_line ''Env Variables:'' out
                      in print_line (render env_t) out));
          out = print_line [] out;
          out = print_line ''Dependencies:'' out;
          out = print_line (render (deps_table ts)) out;
          out = print_line [] out;
          out = print_line ''Speech-to-Text:'' out;
          out = print_line (render (stt_table ts)) out;
          out = print_line [] out;
          out = print_line ''Text-to-Speech:'' out;
          out = print_line (render (tts_table ts)) out;
          out = print_line [] out;
          out = print_line ''Background Services:'' out
      in print_line (render (services_table ts)) out)"

text \<open>
  \<open>main\<close>, from the parsed document and the standard output before the call to the
  exception raised, if any, and the standard output after it.
\<close>

definition main :: "(PrettyTable \<Rightarrow> string) \<Rightarrow> pyval \<Rightarrow> string \<Rightarrow> error option \<times> string" where
  "main render data out =
     (case build_tables data of
        Inl e \<Rightarrow> (Some e, out)
      | Inr ts \<Rightarrow> (None, print_tables render ts out))"

section \<open>format-storage-table.py\<close>

text \<open>
  Lines 27, 53, 71 and 92: after the layout, the labels of the table's fields are taken
  out of the text with \<open>str.replace\<close>, the first label becoming two spaces and the
  others nothing.
\<close>

definition strip_labels :: "string \<Rightarrow> string list \<Rightarrow> string \<Rightarrow> string" where
  "strip_labels first others output =
     foldl (\<lambda>text label. py_replace text label []) (py_replace output first ''  '') others"

text \<open>Lines 18 to 26: the table of the Dependencies section.\<close>

definition dependencies_table :: "pyval \<Rightarrow> error + PrettyTable" where
  "dependencies_table deps =
     (let t = PrettyTable_new [''Name'', ''Size'', ''Path''];
          t = t\<lparr>border := False\<rparr>;
          t = t\<lparr>header := False\<rparr>
      in bindE (get_path deps [''python''] ''size_human'' (PyStr ''0 B'')) (\<lambda>python_size.
         bindE (get_path deps [''python''] ''path'' (PyStr [])) (\<lambda>python_path.
         bindE (get_path deps [''sox''] ''size_human'' (PyStr ''0 B'')) (\<lambda>sox_size.
         bindE (get_path deps [''sox''] ''path'' (PyStr [])) (\<lambda>sox_path.
         (let t = add_row [PyStr ''Python'', python_size, python_path] t;
              t = add_row [PyStr ''Sox'', sox_size, sox_path] t;
              t = align_all CHR ''l'' t;
              t = align_field ''Size'' CHR ''r'' t;
              t = align_field ''Path'' CHR ''l'' t
          in Inr t))))))"

text \<open>Lines 16 to 28.\<close>

definition dependencies_section :: "(PrettyTable \<Rightarrow> string) \<Rightarrow> pyval \<Rightarrow> error + string list" where
  "dependencies_section render data =
     bindE (py_get data ''dependencies'' (PyDict [])) (\<lambda>deps.
     bindE (dependencies_table deps) (\<lambda>t.
     Inr [''Dependencies'', strip_labels ''Name'' [''Size'', ''Path''] (render t), []]))"

text \<open>Lines 35 to 52: the table of the Storage Directories section.\<close>

definition storage_table :: "pyval \<Rightarrow> pyval \<Rightarrow> error + PrettyTable" where
  "storage_table data_dir hf_cache =
     (let t = PrettyTable_new [''Name'', ''Size'', ''Description''];
          t = t\<lparr>border := False\<rparr>;
          t = t\<lparr>header := False\<rparr>
      in bindE (py_get data_dir ''size_human'' (PyStr ''0 B'')) (\<lambda>data_size.
         bindE (py_get data_dir ''path'' (PyStr [])) (\<lambda>data_path.
         bindE (get_path data_dir [''stt''] ''size_human'' (PyStr ''0 B'')) (\<lambda>stt.
         bindE (get_path data_dir [''stt'', ''daemon''] ''size_human'' (PyStr ''0 B'')) (\<lambda>stt_daemon.
         bindE (get_path data_dir [''stt'', ''recordings''] ''size_human'' (PyStr ''0 B'')) (\<lambda>stt_recordings.
         bindE (get_path data_dir [''tts''] ''size_human'' (PyStr ''0 B'')) (\<lambda>tts.
         bindE (get_path data_dir [''tts'', ''voices''] ''size_human'' (PyStr ''0 B'')) (\<lambda>tts_voices.
         bindE (get_path data_dir [''tts'', ''previews''] ''size_human'' (PyStr ''0 B'')) (\<lambda>tts_previews.
         bindE (get_path data_dir [''tts'', ''recordings''] ''size_human'' (PyStr ''0 B'')) (\<lambda>tts_recordings.
         bindE (get_path data_dir [''tts'', ''tmp''] ''size_human'' (PyStr ''0 B'')) (\<lambda>tts_tmp.
         bindE (get_path data_dir [''venv''] ''size_human'' (PyStr ''0 B'')) (\<lambda>venv.
         bindE (py_get hf_cache ''size_human'' (PyStr ''0 B'')) (\<lambda>hf_size.
         bindE (py_get hf_cache ''path'' (PyStr [])) (\<lambda>hf_path.
         bindE (get_path hf_cache [''models''] ''size_human'' (PyStr ''0 B'')) (\<lambda>hf_models.
         (let t = add_row [PyStr ''Data Directory'', data_size, data_path] t;
              t = add_row [PyStr ''  stt/'', stt, PyStr ''(daemon, recordings)''] t;
              t = add_row [PyStr ''    daemon/'', stt_daemon, PyStr ''(scripts, logs)''] t;
              t = add_row [PyStr ''    recordings/'', stt_recordings, PyStr ''(transcription audio)''] t;
              t = add_row [PyStr ''  tts/'', tts, PyStr ''(voices, previews, recordings)''] t;
              t = add_row [PyStr ''    voices/'', tts_voices, PyStr ''(downloaded TTS voices)''] t;
              t = add_row [PyStr ''    previews/'', tts_previews, PyStr ''(voice previews)''] t;
              t = add_row [PyStr ''    recordings/'', tts_recordings, PyStr ''(saved TTS output)''] t;
              t = add_row [PyStr ''    tmp/'', tts_tmp, PyStr ''(temporary files)''] t;
              t = add_row [PyStr ''  venv/'', venv, PyStr ''(Python environment)''] t;
              t = add_row [PyStr ''HuggingFace Cache'', hf_size, hf_path] t;
              t = add_row [PyStr ''  models/'', hf_models, PyStr ''(STT models)''] t;
              t = align_all CHR ''l'' t;
              t = align_field ''Size'' CHR ''r'' t
          in Inr t))))))))))))))))"

text \<open>Lines 30 to 54.\<close>

definition storage_section :: "(PrettyTable \<Rightarrow> string) \<Rightarrow> pyval \<Rightarrow> error + string list" where
  "storage_section render data =
     bindE (py_get data ''storage'' (PyDict [])) (\<lambda>storage.
     bindE (py_get storage ''data_dir'' (PyDict [])) (\<lambda>data_dir.
     bindE (py_get storage ''huggingface_cache'' (PyDict [])) (\<lambda>hf_cache.
     bindE (storage_table data_dir hf_cache) (\<lambda>t.
     Inr [''Storage Directories'',
          strip_labels ''Name'' [''Size'', ''Description''] (render t), []]))))"

text \<open>Line 58: the condition of the comprehension.\<close>

definition model_downloaded :: "pyval \<Rightarrow> error + bool" where
  "model_downloaded m = bindE (py_get m ''downloaded'' PyNone) (\<lambda>d. Inr (truthy d))"

text \<open>Lines 66 and 67: the row of one model.\<close>

definition model_row :: "pyval \<Rightarrow> error + pyval list" where
  "model_row m =
     bindE (py_get m ''path'' (PyStr ''N/A'')) (\<lambda>p.
     (let path = py_or p (PyStr ''N/A'')
      in bindE (py_get m ''alias'' (PyStr [])) (\<lambda>alias.
         bindE (py_get m ''size_human'' (PyStr ''0 B'')) (\<lambda>size_human.
         Inr [alias, size_human, path]))))"

text \<open>A loop \<open>for x in xs: t.add_row(row(x))\<close>.\<close>

fun add_rows :: "('a \<Rightarrow> error + pyval list) \<Rightarrow> 'a list \<Rightarrow> PrettyTable \<Rightarrow> error + PrettyTable" where
  "add_rows row [] t = Inr t"
| "add_rows row (x # xs) t = bindE (row x) (\<lambda>r. add_rows row xs (add_row r t))"

text \<open>Lines 62 to 69.\<close>

definition models_table :: "pyval list \<Rightarrow> error + PrettyTable" where
  "models_table downloaded_models =
     (let t = PrettyTable_new [''Alias'', ''Size'', ''Path''];
          t = t\<lparr>border := False\<rparr>;
          t = t\<lparr>header := False\<rparr>
      in bindE (add_rows model_row downloaded_models t) (\<lambda>t.
         (let t = align_all CHR ''l'' t;
              t = align_field ''Size'' CHR ''r'' t
          in Inr t)))"

text \<open>Lines 56 to 74.\<close>

definition models_section :: "(PrettyTable \<Rightarrow> string) \<Rightarrow> pyval \<Rightarrow> error + string list" where
  "models_section render data =
     bindE (py_get data ''models'' (PyDict [])) (\<lambda>models.
     bindE (py_get models ''items'' (PyList [])) (\<lambda>model_items.
     bindE (py_iter model_items) (\<lambda>items.
     bindE (filterE model_downloaded items) (\<lambda>downloaded_models.
     if downloaded_models \<noteq> []
     then bindE (models_table downloaded_models) (\<lambda>t.
            Inr [''STT Models'', strip_labels ''Alias'' [''Size'', ''Path''] (render t), []])
     else Inr [''STT Models'', ''  (no models downloaded)'', []]))))"

text \<open>Line 78: the condition of the comprehension; \<open>and\<close> evaluates its right side only
  when the left side is true.\<close>

definition voice_downloaded :: "pyval \<Rightarrow> error + bool" where
  "voice_downloaded v =
     bindE (py_get v ''downloaded'' PyNone) (\<lambda>d.
       if truthy d
       then bindE (py_get v ''provider'' PyNone) (\<lambda>provider. Inr (provider \<noteq> PyStr ''system''))
       else Inr False)"

text \<open>Lines 86 and 87: the row of one voice.\<close>

definition voice_row :: "pyval \<Rightarrow> error + pyval list" where
  "voice_row v =
     bindE (py_get v ''path'' (PyStr ''N/A'')) (\<lambda>p.
     (let path = py_or p (PyStr ''N/A'')
      in bindE (py_get v ''alias'' (PyStr [])) (\<lambda>alias.
         bindE (py_get v ''provider'' (PyStr [])) (\<lambda>provider.
         bindE (py_get v ''size_human'' (PyStr ''0 B'')) (\<lambda>size_human.
         Inr [alias, provider, size_human, path])))))"

text \<open>Lines 82 to 90.\<close>

definition voices_table :: "pyval list \<Rightarrow> error + PrettyTable" where
  "voices_table downloaded_voices =
     (let t = PrettyTable_new [''Alias'', ''Provider'', ''Size'', ''Path''];
          t = t\<lparr>border := False\<rparr>;
          t = t\<lparr>header := False\<rparr>
      in bindE (add_rows voice_row downloaded_voices t) (\<lambda>t.
         (let t = align_all CHR ''l'' t;
              t = align_field ''Provider'' CHR ''l'' t;
              t = align_field ''Size'' CHR ''r'' t
          in Inr t)))"

text \<open>Lines 76 to 95.\<close>

definition voices_section :: "(PrettyTable \<Rightarrow> string) \<Rightarrow> pyval \<Rightarrow> error + string list" where
  "voices_section render data =
     bindE (py_get data ''voices'' (PyDict [])) (\<lambda>voices.
     bindE (py_get voices ''items'' (PyList [])) (\<lambda>voice_items.
     bindE (py_iter voice_items) (\<lambda>items.
     bindE (filterE voice_downloaded items) (\<lambda>downloaded_voices.
     if downloaded_voices \<noteq> []
     then bindE (voices_table downloaded_voices) (\<lambda>t.
            Inr [''TTS Voices'',
                 strip_labels ''Alias'' [''Provider'', ''Size'', ''Path''] (render t), []])
     else Inr [''TTS Voices'', ''  (no voices downloaded)'', []]))))"

text \<open>Lines 99 to 104: the table of the total.\<close>

definition total_table :: "pyval \<Rightarrow> PrettyTable" where
  "total_table grand_total =
     (let t = PrettyTable_new [''Total Storage Used'', ''Size''];
          t = t\<lparr>border := False\<rparr>;
          t = t\<lparr>header := False\<rparr>;
          t = add_row [PyStr [], grand_total] t;
          t = align_all CHR ''l'' t;
          t = align_field ''Size'' CHR ''r'' t
      in t)"

text \<open>Lines 97 to 105.\<close>

definition total_section :: "(PrettyTable \<Rightarrow> string) \<Rightarrow> pyval \<Rightarrow> error + string list" where
  "total_section render data =
     bindE (py_get data ''totals'' (PyDict [])) (\<lambda>totals.
     bindE (py_get totals ''grand_total_human'' (PyStr ''0 B'')) (\<lambda>grand_total.
     Inr [render (total_table grand_total)]))"

text \<open>The list \<open>lines\<close> when the function reaches its \<open>return\<close>.\<close>

definition storage_lines :: "(PrettyTable \<Rightarrow> string) \<Rightarrow> pyval \<Rightarrow> error + string list" where
  "storage_lines render data =
     bindE (dependencies_section render data) (\<lambda>dependencies.
     bindE (storage_section render data) (\<lambda>storage.
     bindE (models_section render data) (\<lambda>models.
     bindE (voices_section render data) (\<lambda>voices.
     bindE (total_section render data) (\<lambda>total.
     Inr ([newline # ''VTT Storage Usage'', replicate 60 CHR ''='' @ [newline]]
          @ dependencies @ storage @ models @ voices @ total))))))"

text \<open>\<open>format_storage_table\<close>, from the parsed document.\<close>

definition format_storage_table :: "(PrettyTable \<Rightarrow> string) \<Rightarrow> pyval \<Rightarrow> error + string" where
  "format_storage_table render data =
     bindE (storage_lines render data) (\<lambda>lines. Inr (join [newline] lines))"

text \<open>
  The script's last line, \<open>print(format_storage_table(json_input))\<close>: \<open>out\<close> is what the
  standard output holds.
\<close>

definition storage_script :: "(PrettyTable \<Rightarrow> string) \<Rightarrow> pyval \<Rightarrow> string \<Rightarrow> error option \<times> string" where
  "storage_script render data out =
     (case format_storage_table render data of
        Inl e \<Rightarrow> (Some e, out)
      | Inr text \<Rightarrow> (None, print_line text out))"

section \<open>The two filtered lists, as the specification words them\<close>






section \<open>Basic facts\<close>

lemma bindE_simps [simp]: "bindE (Inl e) f = Inl e" "bindE (Inr x) f = f x"
  by (simp_all add: bindE_def)

lemma bindE_eq_Inr: "bindE m f = Inr y \<longleftrightarrow> (\<exists>x. m = Inr x \<and> f x = Inr y)"
  by (cases m) simp_all

lemma py_get_not_dict: "\<not> is_dict d \<Longrightarrow> py_get d k dflt = Inl AttributeError"
  by (cases d) simp_all

lemma py_get_eq_Inr: "py_get d k dflt = Inr v \<longleftrightarrow> (\<exists>kvs. d = PyDict kvs \<and> v = dict_get kvs k dflt)"
  by (cases d) auto

lemmas doctor_defs = build_tables_def make_runtime_table_def make_deps_table_def
  make_stt_table_def make_tts_table_def make_services_table_def make_env_table_def
  playback_status_def runtime_type_display_def runtime_type_value_def py_or_def

lemma dependencies_section_shape:
  "dependencies_section render data = Inr ls \<Longrightarrow> \<exists>body. ls = [''Dependencies'', body, []]"
  by (auto simp: dependencies_section_def bindE_eq_Inr)

lemma storage_section_shape:
  "storage_section render data = Inr ls \<Longrightarrow> \<exists>body. ls = [''Storage Directories'', body, []]"
  by (auto simp: storage_section_def bindE_eq_Inr)

lemma models_section_shape:
  "models_section render data = Inr ls \<Longrightarrow> \<exists>body. ls = [''STT Models'', body, []]"
  by (auto simp: models_section_def bindE_eq_Inr split: if_splits)

lemma voices_section_shape:
  "voices_section render data = Inr ls \<Longrightarrow> \<exists>body. ls = [''TTS Voices'', body, []]"
  by (auto simp: voices_section_def bindE_eq_Inr split: if_splits)

lemma total_section_shape:
  "total_section render data = Inr ls \<Longrightarrow>
     \<exists>grand_total. get_path data [''totals''] ''grand_total_human'' (PyStr ''0 B'') = Inr grand_total
        \<and> ls = [render (total_table grand_total)]"
  by (auto simp: total_section_def bindE_eq_Inr)

lemma storage_lines_sections:
  assumes "storage_lines render data = Inr lines"
  shows "\<exists>d s m v t. dependencies_section render data = Inr d
           \<and> storage_section render data = Inr s
           \<and> models_section render data = Inr m
           \<and> voices_section render data = Inr v
           \<and> total_section render data = Inr t
           \<and> lines = [newline # ''VTT Storage Usage'', replicate 60 CHR ''='' @ [newline]]
                      @ d @ s @ m @ v @ t"
  using assms by (auto simp: storage_lines_def bindE_eq_Inr)










lemma tts_rows:
  assumes "make_tts_table piper kokoro = Inr t"
  shows "\<exists>kvs piper_row. kokoro = PyDict kvs \<and> rows t = [piper_row,
        [PyStr ''Kokoro'',
         PyStr (kokoro_status (dict_get kvs ''available'' PyNone) (dict_get kvs ''server_running'' PyNone)),
         dict_get kvs ''voices'' (PyInt 0)]]"
  using assms
  by (auto simp: make_tts_table_def bindE_eq_Inr py_get_eq_Inr Let_def add_row_def
      PrettyTable_new_def set_field_names_def align_field_def)

lemma services_rows:
  assumes "make_services_table playback kokoro = Inr t"
  shows "\<exists>kvs playback_row. kokoro = PyDict kvs \<and> rows t = [playback_row,
        [PyStr ''Kokoro Server'',
         PyStr (if truthy (dict_get kvs ''server_running'' PyNone) then ''Running'' else ''Not running'')]]"
  using assms
  by (auto simp: make_services_table_def bindE_eq_Inr py_get_eq_Inr Let_def add_row_def
      PrettyTable_new_def set_field_names_def align_field_def)

lemma build_tables_kokoro:
  assumes "build_tables data = Inr ts"
  shows "\<exists>piper kokoro playback.
      get_path data [''dependencies'', ''engines''] ''kokoro'' (PyDict []) = Inr kokoro
    \<and> make_tts_table piper kokoro = Inr (tts_table ts)
    \<and> make_services_table playback kokoro = Inr (services_table ts)"
proof -
  from assms obtain deps engines piper kokoro playback tts_t services_t where
    "py_get data ''dependencies'' (PyDict []) = Inr deps"
    "py_get deps ''engines'' (PyDict []) = Inr engines"
    "py_get engines ''kokoro'' (PyDict []) = Inr kokoro"
    "make_tts_table piper kokoro = Inr tts_t"
    "make_services_table playback kokoro = Inr services_t"
    "tts_table ts = tts_t" "services_table ts = services_t"
    unfolding build_tables_def bindE_eq_Inr by force
  then show ?thesis by auto
qed

lemmas storage_defs = storage_lines_def dependencies_section_def dependencies_table_def
  storage_section_def storage_table_def models_section_def voices_section_def
  total_section_def model_downloaded_def voice_downloaded_def


lemma no_server_suffix: "mark a \<noteq> prefix @ '' (server)''"
proof
  assume "mark a = prefix @ '' (server)''"
  then have "length (mark a) = length (prefix @ '' (server)'')" by simp
  then show False by (simp add: mark_def check_mark_def cross_mark_def split: if_splits)
qed

lemma total_table_rows: "rows (total_table grand_total) = [[PyStr [], grand_total]]"
  by (simp add: total_table_def Let_def add_row_def PrettyTable_new_def align_all_def
      align_field_def)

section \<open>The claims\<close>

text \<open>
  In the theorems, \<open>render\<close> is any layout function, \<open>get_string\<close> the library's; \<open>out\<close> is
  what the standard output holds before the script runs.
\<close>

subsection \<open>Both views\<close>

text \<open>
  C2. A top-level value that is not an object makes either script fail, and nothing is
  written before the failure: the first thing each does with the document is \<open>data.get\<close>,
  which raises AttributeError on anything but a dict, and the exception leaves the
  script (the process ends with a traceback and a non-zero status). The standard output
  is what it was.
\<close>

theorem non_object_input_fails:
  assumes "\<not> is_dict data"
  shows "main render data out = (Some AttributeError, out)
       \<and> storage_script render data out = (Some AttributeError, out)"
  using assms
  by (simp add: main_def build_tables_def storage_script_def format_storage_table_def
      storage_lines_def dependencies_section_def py_get_not_dict)

theorem non_object_input_fails_witness:
  "\<not> is_dict (PyInt 3) \<and> \<not> is_dict (PyList [PyDict []])
   \<and> main get_string (PyInt 3) [] = (Some AttributeError, [])
   \<and> storage_script get_string (PyInt 3) [] = (Some AttributeError, [])
   \<and> main get_string (PyList [PyDict []]) [] = (Some AttributeError, [])
   \<and> storage_script get_string (PyList [PyDict []]) [] = (Some AttributeError, [])"
  using non_object_input_fails [of "PyInt 3" get_string "[]"]
    non_object_input_fails [of "PyList [PyDict []]" get_string "[]"]
  by simp


subsection \<open>The doctor view\<close>

text \<open>
  C1. A report may lack any optional leaf and still be rendered, also one whose
  \<open>playback.active\<close> is true and whose \<open>playback.pid\<close> is absent. The script reads every
  other field with \<open>get\<close> and a default, but the pid with a subscript: on the report
  \<open>{"playback": {"active": true}}\<close> it raises KeyError and prints nothing.
\<close>

theorem active_playback_without_pid_raises:
  "main render (PyDict [(''playback'', PyDict [(''active'', PyBool True)])]) out
     = (Some KeyError, out)"
  by (simp add: main_def doctor_defs Let_def dict_get_def)

text \<open>
  C6. The runtime type is shown as its label from the fixed lookup, with a check mark
  unless the type is \<open>system\<close>. The script computes that text (lines 12 to 18) and then
  never puts it in a table: for the report \<open>{"runtime": {"type": "bundled"}}\<close> the value
  is the check mark and \<open>Bundled (self-contained)\<close>, the Runtime table has the rows
  Python, Sox and Data only, and what is printed is what is printed for type \<open>system\<close>.
\<close>

theorem runtime_type_is_computed_and_not_shown:
  "runtime_type_display (PyStr ''bundled'') = Inr (PyStr ''Bundled (self-contained)'')
   \<and> runtime_type_value (PyStr ''bundled'') (PyStr ''Bundled (self-contained)'')
       = Inr (PyStr (check_mark @ '' Bundled (self-contained)''))
   \<and> (\<exists>ts. build_tables (PyDict [(''runtime'', PyDict [(''type'', PyStr ''bundled'')])]) = Inr ts
         \<and> rows (runtime_table ts) = [[PyStr ''Python'', PyStr []], [PyStr ''Sox'', PyStr []],
                                      [PyStr ''Data'', PyStr []]]
         \<and> get_string (runtime_table ts) = '' Python   \<newline> Sox      \<newline> Data     '')
   \<and> main render (PyDict [(''runtime'', PyDict [(''type'', PyStr ''bundled'')])]) out
       = main render (PyDict [(''runtime'', PyDict [(''type'', PyStr ''system'')])]) out"
proof -
  let ?bundled = "PyDict [(''runtime'', PyDict [(''type'', PyStr ''bundled'')])]"
  let ?system = "PyDict [(''runtime'', PyDict [(''type'', PyStr ''system'')])]"
  have a: "runtime_type_display (PyStr ''bundled'') = Inr (PyStr ''Bundled (self-contained)'')"
    by (simp add: runtime_type_display_def py_or_def)
  have b: "runtime_type_value (PyStr ''bundled'') (PyStr ''Bundled (self-contained)'')
       = Inr (PyStr (check_mark @ '' Bundled (self-contained)''))"
    by (simp add: runtime_type_value_def)
  have same: "build_tables ?bundled = build_tables ?system"
    by (simp add: doctor_defs Let_def dict_get_def)
  have "\<exists>ts. build_tables ?bundled = Inr ts"
    by (simp add: doctor_defs Let_def dict_get_def)
  then obtain ts where ts: "build_tables ?bundled = Inr ts" by blast
  have rt: "make_runtime_table (PyDict [(''type'', PyStr ''bundled'')]) = Inr (runtime_table ts)"
    using ts by (auto simp: doctor_defs Let_def dict_get_def)
  have "map_sum id rows (make_runtime_table (PyDict [(''type'', PyStr ''bundled'')]))
         = Inr [[PyStr ''Python'', PyStr []], [PyStr ''Sox'', PyStr []], [PyStr ''Data'', PyStr []]]"
    by (simp add: make_runtime_table_def Let_def dict_get_def add_row_def PrettyTable_new_def
        set_field_names_def align_field_def)
  with rt have r: "rows (runtime_table ts) = [[PyStr ''Python'', PyStr []], [PyStr ''Sox'', PyStr []],
                                      [PyStr ''Data'', PyStr []]]"
    by simp
  have "map_sum id get_string (make_runtime_table (PyDict [(''type'', PyStr ''bundled'')]))
         = Inr '' Python   \<newline> Sox      \<newline> Data     ''"
    by code_simp
  with rt have g: "get_string (runtime_table ts) = '' Python   \<newline> Sox      \<newline> Data     ''"
    by simp
  have m: "main render ?bundled out = main render ?system out"
    by (simp add: main_def same)
  from a b ts r g m show ?thesis by blast
qed



text \<open>
  C9. The Kokoro Server row of the Background Services table reads \<open>Running\<close> if and only
  if the Kokoro status of the Text-to-Speech table ends with \<open> (server)\<close>; it reads
  \<open>Not running\<close> otherwise.
\<close>

theorem kokoro_server_row_agrees_with_status:
  assumes "build_tables data = Inr ts"
  shows "\<exists>piper_row status voices playback_row server.
       rows (tts_table ts) = [piper_row, [PyStr ''Kokoro'', PyStr status, voices]]
     \<and> rows (services_table ts) = [playback_row, [PyStr ''Kokoro Server'', PyStr server]]
     \<and> (server = ''Running'' \<or> server = ''Not running'')
     \<and> ((server = ''Running'') = (\<exists>prefix. status = prefix @ '' (server)''))"
proof -
  from build_tables_kokoro [OF assms] obtain piper kokoro playback where
    t: "make_tts_table piper kokoro = Inr (tts_table ts)"
    and s: "make_services_table playback kokoro = Inr (services_table ts)" by blast
  from tts_rows [OF t] obtain kvs piper_row where
    k: "kokoro = PyDict kvs" and r: "rows (tts_table ts) = [piper_row,
        [PyStr ''Kokoro'',
         PyStr (kokoro_status (dict_get kvs ''available'' PyNone) (dict_get kvs ''server_running'' PyNone)),
         dict_get kvs ''voices'' (PyInt 0)]]" by blast
  from services_rows [OF s] k obtain playback_row where
    sr: "rows (services_table ts) = [playback_row,
        [PyStr ''Kokoro Server'',
         PyStr (if truthy (dict_get kvs ''server_running'' PyNone) then ''Running'' else ''Not running'')]]"
    by auto
  let ?a = "dict_get kvs ''available'' PyNone" and ?s = "dict_get kvs ''server_running'' PyNone"
  have iff: "((if truthy ?s then ''Running'' else ''Not running'') = ''Running'')
           = (\<exists>prefix. kokoro_status ?a ?s = prefix @ '' (server)'')"
  proof (cases "truthy ?s")
    case True
    then show ?thesis by (simp add: kokoro_status_def Let_def)
  next
    case False
    then show ?thesis using no_server_suffix [of ?a] by (simp add: kokoro_status_def Let_def)
  qed
  show ?thesis
  proof (intro exI conjI)
    show "rows (tts_table ts) = [piper_row,
        [PyStr ''Kokoro'', PyStr (kokoro_status ?a ?s), dict_get kvs ''voices'' (PyInt 0)]]"
      by (rule r)
    show "rows (services_table ts) = [playback_row,
        [PyStr ''Kokoro Server'', PyStr (if truthy ?s then ''Running'' else ''Not running'')]]"
      by (rule sr)
    show "(if truthy ?s then ''Running'' else ''Not running'') = ''Running''
        \<or> (if truthy ?s then ''Running'' else ''Not running'') = ''Not running''"
      by simp
    show "((if truthy ?s then ''Running'' else ''Not running'') = ''Running'')
           = (\<exists>prefix. kokoro_status ?a ?s = prefix @ '' (server)'')"
      by (rule iff)
  qed
qed

theorem kokoro_server_row_agrees_with_status_witness:
  "\<exists>ts piper_row status voices playback_row.
      build_tables (PyDict [(''dependencies'', PyDict [(''engines'', PyDict [(''kokoro'',
         PyDict [(''server_running'', PyBool True)])])])]) = Inr ts
    \<and> rows (tts_table ts) = [piper_row, [PyStr ''Kokoro'', PyStr status, voices]]
    \<and> rows (services_table ts) = [playback_row, [PyStr ''Kokoro Server'', PyStr ''Running'']]
    \<and> (\<exists>prefix. status = prefix @ '' (server)'')"
proof -
  let ?data = "PyDict [(''dependencies'', PyDict [(''engines'', PyDict [(''kokoro'',
         PyDict [(''server_running'', PyBool True)])])])]"
  have "\<exists>ts. build_tables ?data = Inr ts"
    by (simp add: doctor_defs Let_def dict_get_def)
  then obtain ts where ts: "build_tables ?data = Inr ts" by blast
  from ts have running: "rows (services_table ts) ! 1 = [PyStr ''Kokoro Server'', PyStr ''Running'']"
    by (auto simp: doctor_defs Let_def dict_get_def add_row_def PrettyTable_new_def
        set_field_names_def align_field_def)
  from kokoro_server_row_agrees_with_status [OF ts]
  obtain piper_row status voices playback_row server where
    t: "rows (tts_table ts) = [piper_row, [PyStr ''Kokoro'', PyStr status, voices]]"
    and s: "rows (services_table ts) = [playback_row, [PyStr ''Kokoro Server'', PyStr server]]"
    and iff: "(server = ''Running'') = (\<exists>prefix. status = prefix @ '' (server)'')"
    by blast
  from s running have "server = ''Running''" by simp
  with ts t s iff show ?thesis by blast
qed

subsection \<open>The storage view\<close>

text \<open>
  C3. Header suppression leaves every data cell as it is. The script takes the labels
  out of the laid-out text with \<open>str.replace\<close>, although the header is already switched
  off: for the report \<open>{"dependencies": {"python": {"path": "/opt/Size/bin"}}}\<close> the
  library lays the path out unchanged, and the line the script emits has \<open>/opt//bin\<close>.
\<close>

theorem label_inside_a_path_is_deleted:
  "\<exists>t lines.
      dependencies_table (PyDict [(''python'', PyDict [(''path'', PyStr ''/opt/Size/bin'')])]) = Inr t
    \<and> rows t = [[PyStr ''Python'', PyStr ''0 B'', PyStr ''/opt/Size/bin''],
                [PyStr ''Sox'', PyStr ''0 B'', PyStr []]]
    \<and> get_string t = '' Python  0 B  /opt/Size/bin \<newline> Sox     0 B                ''
    \<and> storage_lines get_string
         (PyDict [(''dependencies'',
            PyDict [(''python'', PyDict [(''path'', PyStr ''/opt/Size/bin'')])])]) = Inr lines
    \<and> lines ! 3 = '' Python  0 B  /opt//bin \<newline> Sox     0 B                ''"
proof -
  let ?deps = "PyDict [(''python'', PyDict [(''path'', PyStr ''/opt/Size/bin'')])]"
  have "\<exists>t. dependencies_table ?deps = Inr t"
    by (simp add: dependencies_table_def Let_def dict_get_def)
  then obtain t where t: "dependencies_table ?deps = Inr t" by blast
  have "map_sum id rows (dependencies_table ?deps)
          = Inr [[PyStr ''Python'', PyStr ''0 B'', PyStr ''/opt/Size/bin''],
                 [PyStr ''Sox'', PyStr ''0 B'', PyStr []]]"
    by (simp add: dependencies_table_def Let_def dict_get_def add_row_def PrettyTable_new_def
        align_all_def align_field_def)
  with t have r: "rows t = [[PyStr ''Python'', PyStr ''0 B'', PyStr ''/opt/Size/bin''],
                [PyStr ''Sox'', PyStr ''0 B'', PyStr []]]"
    by simp
  have "map_sum id get_string (dependencies_table ?deps)
          = Inr '' Python  0 B  /opt/Size/bin \<newline> Sox     0 B                ''"
    by code_simp
  with t have g: "get_string t = '' Python  0 B  /opt/Size/bin \<newline> Sox     0 B                ''"
    by simp
  have s: "strip_labels ''Name'' [''Size'', ''Path'']
             '' Python  0 B  /opt/Size/bin \<newline> Sox     0 B                ''
           = '' Python  0 B  /opt//bin \<newline> Sox     0 B                ''"
    by code_simp
  have d: "dependencies_section get_string (PyDict [(''dependencies'', ?deps)])
       = Inr [''Dependencies'', '' Python  0 B  /opt//bin \<newline> Sox     0 B                '', []]"
    using t g s by (simp add: dependencies_section_def dict_get_def)
  have "\<exists>lines. storage_lines get_string (PyDict [(''dependencies'', ?deps)]) = Inr lines
          \<and> lines ! 3 = '' Python  0 B  /opt//bin \<newline> Sox     0 B                ''"
    unfolding storage_lines_def d
    by (simp add: storage_section_def storage_table_def models_section_def voices_section_def
        total_section_def model_downloaded_def voice_downloaded_def Let_def dict_get_def)
  with t r g show ?thesis by blast
qed





text \<open>
  C10, as amended. Whenever the storage view returns a text for a document, that text is
  the fixed skeleton, in this order: an empty line and the title, the separator of 60
  equals signs and an empty line, then the headings Dependencies, Storage Directories,
  STT Models and TTS Voices, each followed by one body and an empty line, and last the
  total table, whose one row is an empty cell and \<open>totals.grand_total_human\<close>, or \<open>0 B\<close>
  when that field is absent. The claim as stated, for every top-level object, fails: a
  document whose \<open>dependencies\<close> is \<open>null\<close> is a top-level object, and on it the function
  raises AttributeError and returns nothing.
\<close>

theorem storage_output_skeleton:
  assumes "format_storage_table render data = Inr text"
  shows "\<exists>dependencies directories models voices grand_total.
      get_path data [''totals''] ''grand_total_human'' (PyStr ''0 B'') = Inr grand_total
    \<and> rows (total_table grand_total) = [[PyStr [], grand_total]]
    \<and> text = join [newline]
        [newline # ''VTT Storage Usage'',
         replicate 60 CHR ''='' @ [newline],
         ''Dependencies'', dependencies, [],
         ''Storage Directories'', directories, [],
         ''STT Models'', models, [],
         ''TTS Voices'', voices, [],
         render (total_table grand_total)]"
proof -
  from assms obtain lines where l: "storage_lines render data = Inr lines"
    and joined: "text = join [newline] lines"
    by (auto simp: format_storage_table_def bindE_eq_Inr)
  from storage_lines_sections [OF l] obtain d s m v t where
    d: "dependencies_section render data = Inr d" and s: "storage_section render data = Inr s"
    and m: "models_section render data = Inr m" and v: "voices_section render data = Inr v"
    and t: "total_section render data = Inr t"
    and lines: "lines = [newline # ''VTT Storage Usage'', replicate 60 CHR ''='' @ [newline]]
                      @ d @ s @ m @ v @ t"
    by blast
  from dependencies_section_shape [OF d] obtain db where db: "d = [''Dependencies'', db, []]"
    by blast
  from storage_section_shape [OF s] obtain sb where sb: "s = [''Storage Directories'', sb, []]"
    by blast
  from models_section_shape [OF m] obtain mb where mb: "m = [''STT Models'', mb, []]"
    by blast
  from voices_section_shape [OF v] obtain vb where vb: "v = [''TTS Voices'', vb, []]"
    by blast
  from total_section_shape [OF t] obtain gt where
    gt: "get_path data [''totals''] ''grand_total_human'' (PyStr ''0 B'') = Inr gt"
    and tb: "t = [render (total_table gt)]" by blast
  have "lines = [newline # ''VTT Storage Usage'', replicate 60 CHR ''='' @ [newline],
         ''Dependencies'', db, [], ''Storage Directories'', sb, [],
         ''STT Models'', mb, [], ''TTS Voices'', vb, [], render (total_table gt)]"
    using lines db sb mb vb tb by simp
  with joined gt total_table_rows [of gt] show ?thesis by blast
qed

theorem storage_output_skeleton_witness:
  "\<exists>text dependencies directories.
      format_storage_table get_string (PyDict []) = Inr text
    \<and> text = join [newline]
        [newline # ''VTT Storage Usage'',
         replicate 60 CHR ''='' @ [newline],
         ''Dependencies'', dependencies, [],
         ''Storage Directories'', directories, [],
         ''STT Models'', ''  (no models downloaded)'', [],
         ''TTS Voices'', ''  (no voices downloaded)'', [],
         ''   0 B '']"
proof -
  have "\<exists>text. format_storage_table get_string (PyDict []) = Inr text"
    by (simp add: format_storage_table_def storage_defs Let_def dict_get_def)
  then obtain printed where p: "format_storage_table get_string (PyDict []) = Inr printed"
    by blast
  from storage_output_skeleton [OF p]
  obtain dependencies directories models voices grand_total where
    gt: "get_path (PyDict []) [''totals''] ''grand_total_human'' (PyStr ''0 B'') = Inr grand_total"
    and t: "printed = join [newline]
        [newline # ''VTT Storage Usage'',
         replicate 60 CHR ''='' @ [newline],
         ''Dependencies'', dependencies, [],
         ''Storage Directories'', directories, [],
         ''STT Models'', models, [],
         ''TTS Voices'', voices, [],
         get_string (total_table grand_total)]"
    by blast
  from gt have g: "grand_total = PyStr ''0 B''" by (simp add: dict_get_def)
  have total: "get_string (total_table (PyStr ''0 B'')) = ''   0 B ''"
    by code_simp
  from p have "\<exists>d s. printed = join [newline]
        [newline # ''VTT Storage Usage'',
         replicate 60 CHR ''='' @ [newline],
         ''Dependencies'', d, [],
         ''Storage Directories'', s, [],
         ''STT Models'', ''  (no models downloaded)'', [],
         ''TTS Voices'', ''  (no voices downloaded)'', [],
         get_string (total_table (PyStr ''0 B''))]"
    by (auto simp: format_storage_table_def storage_defs Let_def dict_get_def)
  with p total t show ?thesis by auto
qed

theorem storage_output_skeleton_counterexample:
  "is_dict (PyDict [(''dependencies'', PyNone)])
   \<and> format_storage_table get_string (PyDict [(''dependencies'', PyNone)]) = Inl AttributeError
   \<and> storage_script get_string (PyDict [(''dependencies'', PyNone)]) [] = (Some AttributeError, [])"
  by (simp add: storage_script_def format_storage_table_def storage_lines_def
      dependencies_section_def dependencies_table_def dict_get_def Let_def)

end
